theory Spec2Isabelle
  imports Main
begin

section \<open>The REST views of leverxcourses/main/views.py\<close>

text \<open>
  The module declares ten class-based views over five models. Every view restricts its
  queryset with one \<^verbatim>\<open>Model.objects.filter(<lookup>=self.request.user)\<close> and hands the
  request to a generic mixin operation (list, create, retrieve, update, destroy). The
  module's own code is the class attributes, the lookups and the choice of mixin operation
  per HTTP verb; these are translated one to one below. The mixin operations and the
  request dispatch are the framework's; they are written out as far as the views use them.
\<close>

subsection \<open>Rows, tables, requests and responses\<close>

datatype model = User | Course | Lecture | LectureTask | TaskControl | TaskComments

type_synonym json = "(string \<times> string) list"

text \<open>
  A row has its primary key, its relation fields (a foreign key holds one primary key, a
  many-to-many field several) and its plain columns.
\<close>

record row =
  pk :: nat
  rels :: "(string \<times> nat list) list"
  cols :: json

type_synonym validated_data = "(string \<times> nat list) list \<times> json"

text \<open>
  The database is one table per model. \<open>db_down\<close> is the backend failing: every
  query and every write raises \<open>DatabaseError\<close> while it holds.
\<close>

record database =
  tables :: "model \<Rightarrow> row list"
  db_down :: bool

datatype error =
    ValidationError
  | Http404
  | PermissionDenied
  | MethodNotAllowed
  | FieldError
  | ValueError
  | TypeError
  | MultipleObjectsReturned
  | DatabaseError

datatype http_method = GET | POST | PUT | PATCH | DELETE

text \<open>
  \<^verbatim>\<open>request.user\<close> is the anonymous user when the caller sent no credentials, and the
  user row of the caller, given by its primary key, otherwise.
\<close>

datatype caller = AnonymousUser | Authenticated nat

text \<open>
  \<open>verb\<close> is \<^verbatim>\<open>request.method\<close>, \<open>user\<close> is \<^verbatim>\<open>self.request.user\<close>,
  \<open>data\<close> the parsed body (\<^verbatim>\<open>request.data\<close>) and \<open>pk_kwarg\<close> the primary key
  captured from the URL of a detail route. A request whose body the parsers of the view
  cannot read has no \<open>data\<close>; it is not a request of this model.
\<close>

record request =
  verb :: http_method
  user :: caller
  data :: json
  pk_kwarg :: nat

datatype body = One json | Many "json list" | Detail error | NoBody

record response =
  status :: nat
  body :: body
  headers :: json

datatype serializer = CourseSerializer | LectureSerializer | TaskSerializer | TaskControlSerializer

datatype permission = LecturerOrGetPermissions | AllowAny

datatype parser = JSONParser | FormParser | MultiPartParser

datatype view =
    CourseList | CourseDetail
  | LectureList | LectureDetail
  | TaskList | TaskDetail
  | TaskControlList | TaskControlDetail
  | TaskCommentsList | TaskCommentsDetail

text \<open>
  What the views import from modules that are not among the sources is a parameter:
  the relation fields and the plain columns the models declare (models.py), what a
  serializer accepts and how it renders a row (serializers.py) and the decisions of
  \<^verbatim>\<open>LecturerOrGetPermissions\<close> (permissions.py).
\<close>

record env =
  schema :: "model \<Rightarrow> string \<Rightarrow> model option"
  columns :: "model \<Rightarrow> string list"
  run_validation :: "serializer \<Rightarrow> database \<Rightarrow> row option \<Rightarrow> json \<Rightarrow> validated_data option"
  to_representation :: "serializer \<Rightarrow> row \<Rightarrow> json"
  lecturer_has_permission :: "request \<Rightarrow> bool"
  lecturer_has_object_permission :: "request \<Rightarrow> row \<Rightarrow> bool"

subsection \<open>Class attributes of the views\<close>

fun serializer_class :: "view \<Rightarrow> serializer" where
  "serializer_class CourseList = CourseSerializer"
| "serializer_class CourseDetail = CourseSerializer"
| "serializer_class LectureList = LectureSerializer"
| "serializer_class LectureDetail = LectureSerializer"
| "serializer_class TaskList = TaskSerializer"
| "serializer_class TaskDetail = TaskSerializer"
| "serializer_class TaskControlList = TaskControlSerializer"
| "serializer_class TaskControlDetail = TaskSerializer"
| "serializer_class TaskCommentsList = TaskControlSerializer"
| "serializer_class TaskCommentsDetail = TaskSerializer"

fun permission_classes :: "view \<Rightarrow> permission list" where
  "permission_classes CourseList = [LecturerOrGetPermissions]"
| "permission_classes CourseDetail = [LecturerOrGetPermissions]"
| "permission_classes LectureList = [LecturerOrGetPermissions]"
| "permission_classes LectureDetail = [LecturerOrGetPermissions]"
| "permission_classes TaskList = [LecturerOrGetPermissions]"
| "permission_classes TaskDetail = [LecturerOrGetPermissions]"
| "permission_classes TaskControlList = [AllowAny]"
| "permission_classes TaskControlDetail = [AllowAny]"
| "permission_classes TaskCommentsList = [AllowAny]"
| "permission_classes TaskCommentsDetail = [AllowAny]"

text \<open>
  \<open>None\<close>: the class does not set \<^verbatim>\<open>parser_classes\<close> and inherits the default of
  the project's settings, which are not among the sources.
\<close>

fun parser_classes :: "view \<Rightarrow> parser list option" where
  "parser_classes LectureDetail = Some [MultiPartParser]"
| "parser_classes _ = None"

text \<open>
  \<^verbatim>\<open>get_queryset\<close> of each view is \<^verbatim>\<open>M.objects.filter(l=self.request.user)\<close>:
  \<open>queryset_model\<close> is its \<^verbatim>\<open>M\<close>, \<open>lookup\<close> its \<^verbatim>\<open>l\<close> split at the double underscores.
\<close>

fun queryset_model :: "view \<Rightarrow> model" where
  "queryset_model CourseList = Course"
| "queryset_model CourseDetail = Course"
| "queryset_model LectureList = Lecture"
| "queryset_model LectureDetail = Lecture"
| "queryset_model TaskList = LectureTask"
| "queryset_model TaskDetail = LectureTask"
| "queryset_model TaskControlList = TaskControl"
| "queryset_model TaskControlDetail = TaskControl"
| "queryset_model TaskCommentsList = TaskComments"
| "queryset_model TaskCommentsDetail = TaskComments"

fun lookup :: "view \<Rightarrow> string list" where
  "lookup CourseList = [''users'']"
| "lookup CourseDetail = [''users'']"
| "lookup LectureList = [''course'', ''users'']"
| "lookup LectureDetail = [''course'', ''users'']"
| "lookup TaskList = [''lecture'', ''course'', ''users'']"
| "lookup TaskDetail = [''lecture'', ''course'', ''users'']"
| "lookup TaskControlList = [''task'', ''lecture'', ''course'', ''users'']"
| "lookup TaskControlDetail = [''task'', ''lecture'', ''course'', ''users'']"
| "lookup TaskCommentsList = [''taskcontrol'', ''task'', ''lecture'', ''course'', ''users'']"
| "lookup TaskCommentsDetail = [''task'', ''lecture'', ''course'', ''users'']"

text \<open>
  Modelled from the spec: serializers.py is not among the sources. Each serializer is the
  model serializer of the entity it is named after (Course, Lecture, Task, TaskControl);
  \<open>serializer_model\<close> is its \<^verbatim>\<open>Meta.model\<close>, the table \<^verbatim>\<open>serializer.save()\<close> creates
  a row in.
\<close>

fun serializer_model :: "serializer \<Rightarrow> model" where
  "serializer_model CourseSerializer = Course"
| "serializer_model LectureSerializer = Lecture"
| "serializer_model TaskSerializer = LectureTask"
| "serializer_model TaskControlSerializer = TaskControl"

subsection \<open>The object-relational mapper, as far as the views use it\<close>

definition related_of :: "row \<Rightarrow> string \<Rightarrow> nat list" where
  "related_of rw f = (case map_of (rels rw) f of None \<Rightarrow> [] | Some ps \<Rightarrow> ps)"

text \<open>
  A lookup \<^verbatim>\<open>f1__f2__...__fn=user\<close> is resolved when the filter is built, before any
  query is sent: a name that is no relation of the model reached raises \<open>FieldError\<close>;
  then the value is prepared for the last relation, where the anonymous user, which is
  no row and has no primary key, raises \<open>TypeError\<close>, and a user row raises
  \<open>ValueError\<close> unless the relation leads to the user model.
\<close>

fun resolve :: "(model \<Rightarrow> string \<Rightarrow> model option) \<Rightarrow> model \<Rightarrow> string list \<Rightarrow> caller \<Rightarrow> error option" where
  "resolve sc m [] AnonymousUser = Some TypeError"
| "resolve sc m [] (Authenticated u) = (if m = User then None else Some ValueError)"
| "resolve sc m (f # fs) c =
     (case sc m f of None \<Rightarrow> Some FieldError | Some m' \<Rightarrow> resolve sc m' fs c)"

text \<open>
  \<open>chain sc db m fs u r\<close>: the row of \<open>m\<close> with primary key \<open>r\<close> reaches the
  user \<open>u\<close> along the relations \<open>fs\<close>, each step through a stored row (the joins of
  the query).
\<close>

fun chain :: "(model \<Rightarrow> string \<Rightarrow> model option) \<Rightarrow> database \<Rightarrow> model \<Rightarrow> string list \<Rightarrow> caller \<Rightarrow> nat \<Rightarrow> bool" where
  "chain sc db m [] u r = (u = Authenticated r)"
| "chain sc db m (f # fs) u r =
     (case sc m f of
        None \<Rightarrow> False
      | Some m' \<Rightarrow>
          (\<exists>rw \<in> set (tables db m). pk rw = r \<and>
             (\<exists>r' \<in> set (related_of rw f). chain sc db m' fs u r')))"

definition objects_filter :: "env \<Rightarrow> database \<Rightarrow> model \<Rightarrow> string list \<Rightarrow> caller \<Rightarrow> error + row list" where
  "objects_filter e db m fs u =
     (case resolve (schema e) m fs u of
        Some err \<Rightarrow> Inl err
      | None \<Rightarrow>
          if db_down db then Inl DatabaseError
          else Inr (filter (\<lambda>rw. chain (schema e) db m fs u (pk rw)) (tables db m)))"

definition new_pk :: "row list \<Rightarrow> nat" where
  "new_pk rws = Suc (fold max (map pk rws) 0)"

text \<open>\<^verbatim>\<open>Model.objects.create(**validated_data)\<close>: a row under a fresh primary key.\<close>

definition objects_create :: "database \<Rightarrow> model \<Rightarrow> validated_data \<Rightarrow> row \<times> database" where
  "objects_create db m vd =
     (let rw = \<lparr>pk = new_pk (tables db m), rels = fst vd, cols = snd vd\<rparr>
      in (rw, db\<lparr>tables := (tables db)(m := tables db m @ [rw])\<rparr>))"

text \<open>\<^verbatim>\<open>instance.save()\<close> of a stored instance: the row under its primary key is overwritten.\<close>

definition instance_save :: "database \<Rightarrow> model \<Rightarrow> row \<Rightarrow> database" where
  "instance_save db m rw =
     db\<lparr>tables := (tables db)(m := map (\<lambda>old. if pk old = pk rw then rw else old) (tables db m))\<rparr>"

text \<open>
  \<^verbatim>\<open>instance.delete()\<close>: the row leaves its table. What happens to rows that refer to it
  is the \<^verbatim>\<open>on_delete\<close> rule of models.py, which is not among the sources; they are left
  as they are.
\<close>

definition instance_delete :: "database \<Rightarrow> model \<Rightarrow> row \<Rightarrow> database" where
  "instance_delete db m rw =
     db\<lparr>tables := (tables db)(m := filter (\<lambda>old. pk old \<noteq> pk rw) (tables db m))\<rparr>"

definition set_related :: "row \<Rightarrow> string \<Rightarrow> nat list \<Rightarrow> row" where
  "set_related rw f ps = rw\<lparr>rels := (f, ps) # filter (\<lambda>p. fst p \<noteq> f) (rels rw)\<rparr>"

text \<open>\<^verbatim>\<open>instance.<f>.add(x)\<close> on a many-to-many field: a pair already related is not repeated.\<close>

definition related_add :: "row \<Rightarrow> string \<Rightarrow> nat \<Rightarrow> row" where
  "related_add rw f x =
     (if x \<in> set (related_of rw f) then rw else set_related rw f (related_of rw f @ [x]))"

text \<open>
  The serializer's update assigns every validated field to the instance it was given
  (\<^verbatim>\<open>setattr\<close>) and saves the instance. \<open>set_fields\<close> is the assignment: the fields
  named are overwritten, the others kept. Saving writes the fields of the instance's own
  model only: of the validated data just \<open>model_fields\<close>, the relations and columns that
  model declares, reach the table; a name that is none of them stays an attribute of the
  object in memory.
\<close>

definition overwrite :: "('a \<times> 'b) list \<Rightarrow> ('a \<times> 'b) list \<Rightarrow> ('a \<times> 'b) list" where
  "overwrite new old = new @ filter (\<lambda>p. fst p \<notin> set (map fst new)) old"

definition set_fields :: "row \<Rightarrow> validated_data \<Rightarrow> row" where
  "set_fields rw vd = rw\<lparr>rels := overwrite (fst vd) (rels rw), cols := overwrite (snd vd) (cols rw)\<rparr>"

definition model_fields :: "env \<Rightarrow> model \<Rightarrow> validated_data \<Rightarrow> validated_data" where
  "model_fields e m vd =
     (filter (\<lambda>p. schema e m (fst p) \<noteq> None) (fst vd),
      filter (\<lambda>p. fst p \<in> set (columns e m)) (snd vd))"

subsection \<open>Permissions\<close>

fun has_permission :: "env \<Rightarrow> permission \<Rightarrow> request \<Rightarrow> bool" where
  "has_permission e LecturerOrGetPermissions req = lecturer_has_permission e req"
| "has_permission e AllowAny req = True"

fun has_object_permission :: "env \<Rightarrow> permission \<Rightarrow> request \<Rightarrow> row \<Rightarrow> bool" where
  "has_object_permission e LecturerOrGetPermissions req rw = lecturer_has_object_permission e req rw"
| "has_object_permission e AllowAny req rw = True"

definition check_permissions :: "env \<Rightarrow> view \<Rightarrow> request \<Rightarrow> bool" where
  "check_permissions e v req = list_all (\<lambda>p. has_permission e p req) (permission_classes v)"

definition check_object_permissions :: "env \<Rightarrow> view \<Rightarrow> request \<Rightarrow> row \<Rightarrow> bool" where
  "check_object_permissions e v req rw =
     list_all (\<lambda>p. has_object_permission e p req rw) (permission_classes v)"

subsection \<open>The generic view and its mixin operations\<close>

definition get_queryset :: "env \<Rightarrow> view \<Rightarrow> request \<Rightarrow> database \<Rightarrow> error + row list" where
  "get_queryset e v req db = objects_filter e db (queryset_model v) (lookup v) (user req)"

text \<open>
  \<^verbatim>\<open>get_object\<close>: the one row of the view's queryset with the primary key of the URL,
  \<open>Http404\<close> when there is none, then the object-level permission check.
\<close>

definition get_object :: "env \<Rightarrow> view \<Rightarrow> request \<Rightarrow> database \<Rightarrow> error + row" where
  "get_object e v req db =
     (case get_queryset e v req db of
        Inl err \<Rightarrow> Inl err
      | Inr qs \<Rightarrow>
          (case filter (\<lambda>rw. pk rw = pk_kwarg req) qs of
             [] \<Rightarrow> Inl Http404
           | [rw] \<Rightarrow>
               if check_object_permissions e v req rw then Inr rw else Inl PermissionDenied
           | _ \<Rightarrow> Inl MultipleObjectsReturned))"

text \<open>
  \<^verbatim>\<open>get_success_headers\<close>: a \<^verbatim>\<open>Location\<close> header from the \<^verbatim>\<open>url\<close> field of the
  serialized data, no header when the data has no such field.
\<close>

definition get_success_headers :: "json \<Rightarrow> json" where
  "get_success_headers d =
     (case map_of d ''url'' of None \<Rightarrow> [] | Some u \<Rightarrow> [(''Location'', u)])"

type_synonym handler = "env \<Rightarrow> view \<Rightarrow> request \<Rightarrow> database \<Rightarrow> error + response \<times> database"

definition list :: handler where
  "list e self req db =
     (case get_queryset e self req db of
        Inl err \<Rightarrow> Inl err
      | Inr qs \<Rightarrow>
          Inr (\<lparr>status = 200,
                body = Many (map (to_representation e (serializer_class self)) qs),
                headers = []\<rparr>, db))"

definition create :: handler where
  "create e self req db =
     (case run_validation e (serializer_class self) db None (data req) of
        None \<Rightarrow> Inl ValidationError
      | Some vd \<Rightarrow>
          if db_down db then Inl DatabaseError
          else
            (let (rw, db') = objects_create db (serializer_model (serializer_class self)) vd;
                 d = to_representation e (serializer_class self) rw
             in Inr (\<lparr>status = 201, body = One d, headers = get_success_headers d\<rparr>, db')))"

definition retrieve :: handler where
  "retrieve e self req db =
     (case get_object e self req db of
        Inl err \<Rightarrow> Inl err
      | Inr instance \<Rightarrow>
          Inr (\<lparr>status = 200,
                body = One (to_representation e (serializer_class self) instance),
                headers = []\<rparr>, db))"

definition update :: handler where
  "update e self req db =
     (case get_object e self req db of
        Inl err \<Rightarrow> Inl err
      | Inr instance \<Rightarrow>
          (case run_validation e (serializer_class self) db (Some instance) (data req) of
             None \<Rightarrow> Inl ValidationError
           | Some vd \<Rightarrow>
               Inr (\<lparr>status = 200,
                     body = One (to_representation e (serializer_class self)
                                   (set_fields instance vd)),
                     headers = []\<rparr>,
                    instance_save db (queryset_model self)
                      (set_fields instance (model_fields e (queryset_model self) vd)))))"

definition destroy :: handler where
  "destroy e self req db =
     (case get_object e self req db of
        Inl err \<Rightarrow> Inl err
      | Inr instance \<Rightarrow>
          Inr (\<lparr>status = 204, body = NoBody, headers = []\<rparr>,
               instance_delete db (queryset_model self) instance))"

text \<open>
  \<^verbatim>\<open>CourseList.post\<close>: as \<open>create\<close>, with the requesting user added to the new
  course's \<^verbatim>\<open>users\<close> before the response is rendered. The anonymous user cannot be
  added: \<^verbatim>\<open>add\<close> raises \<open>TypeError\<close>, after the course was saved. The result of a
  request that ends in an exception is the exception alone; the database it leaves behind
  is not part of the result.
\<close>

definition CourseList_post :: handler where
  "CourseList_post e self req db =
     (case run_validation e (serializer_class self) db None (data req) of
        None \<Rightarrow> Inl ValidationError
      | Some vd \<Rightarrow>
          if db_down db then Inl DatabaseError
          else
            (let (new_course, db1) = objects_create db (serializer_model (serializer_class self)) vd
             in case user req of
                  AnonymousUser \<Rightarrow> Inl TypeError
                | Authenticated u \<Rightarrow>
                    (let new_course' = related_add new_course ''users'' u;
                         db2 = instance_save db1 (serializer_model (serializer_class self))
                                 new_course';
                         d = to_representation e (serializer_class self) new_course'
                     in Inr (\<lparr>status = 201, body = One d, headers = get_success_headers d\<rparr>,
                             db2))))"

text \<open>The methods each class defines; a verb without a method has no handler.\<close>

fun handler :: "view \<Rightarrow> http_method \<Rightarrow> handler option" where
  "handler CourseList GET = Some list"
| "handler CourseList POST = Some CourseList_post"
| "handler CourseDetail GET = Some retrieve"
| "handler CourseDetail PUT = Some update"
| "handler CourseDetail DELETE = Some destroy"
| "handler LectureList GET = Some list"
| "handler LectureList POST = Some create"
| "handler LectureDetail PUT = Some update"
| "handler LectureDetail DELETE = Some destroy"
| "handler TaskList GET = Some list"
| "handler TaskList POST = Some create"
| "handler TaskDetail PUT = Some update"
| "handler TaskDetail DELETE = Some destroy"
| "handler TaskControlList GET = Some list"
| "handler TaskControlList POST = Some create"
| "handler TaskControlDetail PUT = Some update"
| "handler TaskControlDetail DELETE = Some destroy"
| "handler TaskCommentsList GET = Some list"
| "handler TaskCommentsList POST = Some create"
| "handler TaskCommentsDetail PUT = Some update"
| "handler TaskCommentsDetail DELETE = Some destroy"
| "handler _ _ = None"

text \<open>
  The framework turns the exceptions it knows into responses and lets every other
  exception out of the view.
\<close>

fun handle_exception :: "error \<Rightarrow> database \<Rightarrow> error + response \<times> database" where
  "handle_exception ValidationError db =
     Inr (\<lparr>status = 400, body = Detail ValidationError, headers = []\<rparr>, db)"
| "handle_exception Http404 db =
     Inr (\<lparr>status = 404, body = Detail Http404, headers = []\<rparr>, db)"
| "handle_exception PermissionDenied db =
     Inr (\<lparr>status = 403, body = Detail PermissionDenied, headers = []\<rparr>, db)"
| "handle_exception MethodNotAllowed db =
     Inr (\<lparr>status = 405, body = Detail MethodNotAllowed, headers = []\<rparr>, db)"
| "handle_exception err db = Inl err"

text \<open>
  \<^verbatim>\<open>dispatch\<close>: the view-level permission check, then the method of the class for the
  request's verb, then the exception handler.
\<close>

definition dispatch :: "env \<Rightarrow> view \<Rightarrow> request \<Rightarrow> database \<Rightarrow> error + response \<times> database" where
  "dispatch e v req db =
     (if \<not> check_permissions e v req then handle_exception PermissionDenied db
      else
        (case handler v (verb req) of
           None \<Rightarrow> handle_exception MethodNotAllowed db
         | Some h \<Rightarrow>
             (case h e v req db of
                Inl err \<Rightarrow> handle_exception err db
              | Inr r \<Rightarrow> Inr r)))"

subsection \<open>The ownership chain in the spec's words\<close>

text \<open>
  Modelled from the spec: models.py is not among the sources. The relations of the spec's
  data model, under the names the views' lookups give them: a course has many users, a
  lecture belongs to one course, a task to one lecture, a task-control record to one task,
  a comment to one task-control record.
\<close>

fun spec_schema :: "model \<Rightarrow> string \<Rightarrow> model option" where
  "spec_schema m f =
     (if m = Course \<and> f = ''users'' then Some User
      else if m = Lecture \<and> f = ''course'' then Some Course
      else if m = LectureTask \<and> f = ''lecture'' then Some Lecture
      else if m = TaskControl \<and> f = ''task'' then Some LectureTask
      else if m = TaskComments \<and> f = ''taskcontrol'' then Some TaskControl
      else None)"

text \<open>
  Follows the spec's words, to be compared with the lookups of the source: the caller
  \<open>u\<close> is a member of the course \<open>c\<close> (the anonymous user is a member of none); a
  lecture, a task, a task-control record and a comment are visible to \<open>u\<close> when the row
  they belong to is.
\<close>

definition is_member :: "database \<Rightarrow> caller \<Rightarrow> nat \<Rightarrow> bool" where
  "is_member db u c =
     (\<exists>rw \<in> set (tables db Course). pk rw = c \<and>
        (\<exists>k \<in> set (related_of rw ''users''). u = Authenticated k))"

definition lecture_visible :: "database \<Rightarrow> caller \<Rightarrow> nat \<Rightarrow> bool" where
  "lecture_visible db u l =
     (\<exists>rw \<in> set (tables db Lecture). pk rw = l \<and>
        (\<exists>c \<in> set (related_of rw ''course''). is_member db u c))"

definition task_visible :: "database \<Rightarrow> caller \<Rightarrow> nat \<Rightarrow> bool" where
  "task_visible db u t =
     (\<exists>rw \<in> set (tables db LectureTask). pk rw = t \<and>
        (\<exists>l \<in> set (related_of rw ''lecture''). lecture_visible db u l))"

definition taskcontrol_visible :: "database \<Rightarrow> caller \<Rightarrow> nat \<Rightarrow> bool" where
  "taskcontrol_visible db u k =
     (\<exists>rw \<in> set (tables db TaskControl). pk rw = k \<and>
        (\<exists>t \<in> set (related_of rw ''task''). task_visible db u t))"

definition comment_visible :: "database \<Rightarrow> caller \<Rightarrow> nat \<Rightarrow> bool" where
  "comment_visible db u k =
     (\<exists>rw \<in> set (tables db TaskComments). pk rw = k \<and>
        (\<exists>t \<in> set (related_of rw ''taskcontrol''). taskcontrol_visible db u t))"

fun visible :: "database \<Rightarrow> caller \<Rightarrow> model \<Rightarrow> nat \<Rightarrow> bool" where
  "visible db u Course r = is_member db u r"
| "visible db u Lecture r = lecture_visible db u r"
| "visible db u LectureTask r = task_visible db u r"
| "visible db u TaskControl r = taskcontrol_visible db u r"
| "visible db u TaskComments r = comment_visible db u r"
| "visible db u User r = (u = Authenticated r)"

text \<open>
  A comment taken as if it belonged directly to a task, through a relation \<open>task\<close> of
  its own: the reading of the lookup of \<^verbatim>\<open>TaskCommentsDetail\<close>.
\<close>

definition comment_task_visible :: "database \<Rightarrow> caller \<Rightarrow> nat \<Rightarrow> bool" where
  "comment_task_visible db u k =
     (\<exists>rw \<in> set (tables db TaskComments). pk rw = k \<and>
        (\<exists>t \<in> set (related_of rw ''task''). task_visible db u t))"


text \<open>The list view that belongs to a detail view.\<close>

fun list_view :: "view \<Rightarrow> view" where
  "list_view CourseDetail = CourseList"
| "list_view LectureDetail = LectureList"
| "list_view TaskDetail = TaskList"
| "list_view TaskControlDetail = TaskControlList"
| "list_view TaskCommentsDetail = TaskCommentsList"
| "list_view v = v"

subsection \<open>A small project to evaluate the views on\<close>

text \<open>
  The relations of the spec's data model and one plain column per model; a serializer that
  rejects the empty payload and takes every field of any other payload as a plain column;
  a row rendered as its plain columns; a permission class that admits everyone.
\<close>

definition sample_columns :: "model \<Rightarrow> string list" where
  "sample_columns m =
     (case m of
        User \<Rightarrow> []
      | Course \<Rightarrow> [''name'']
      | Lecture \<Rightarrow> [''topic'']
      | LectureTask \<Rightarrow> [''text'']
      | TaskControl \<Rightarrow> [''answer'']
      | TaskComments \<Rightarrow> [''comment''])"

definition sample_env :: env where
  "sample_env =
     \<lparr>schema = spec_schema,
      columns = sample_columns,
      run_validation = (\<lambda>ser db inst d. if d = [] then None else Some ([], d)),
      to_representation = (\<lambda>ser rw. cols rw),
      lecturer_has_permission = (\<lambda>req. True),
      lecturer_has_object_permission = (\<lambda>req rw. True)\<rparr>"

text \<open>
  One course with user 1 as its only member, and one lecture, task, task-control record
  and comment under it.
\<close>

definition sample_tables :: "model \<Rightarrow> row list" where
  "sample_tables m =
     (case m of
        User \<Rightarrow> []
      | Course \<Rightarrow> [\<lparr>pk = 1, rels = [(''users'', [1])], cols = [(''name'', ''algebra'')]\<rparr>]
      | Lecture \<Rightarrow> [\<lparr>pk = 1, rels = [(''course'', [1])], cols = [(''topic'', ''groups'')]\<rparr>]
      | LectureTask \<Rightarrow> [\<lparr>pk = 1, rels = [(''lecture'', [1])], cols = [(''text'', ''exercise'')]\<rparr>]
      | TaskControl \<Rightarrow> [\<lparr>pk = 1, rels = [(''task'', [1])], cols = [(''answer'', ''done'')]\<rparr>]
      | TaskComments \<Rightarrow>
          [\<lparr>pk = 1, rels = [(''taskcontrol'', [1])], cols = [(''comment'', ''good'')]\<rparr>])"

definition sample_db :: database where
  "sample_db = \<lparr>tables = sample_tables, db_down = False\<rparr>"

text \<open>Requests of user \<open>u\<close> and of the anonymous user, with an empty payload.\<close>

definition sample_request :: "http_method \<Rightarrow> nat \<Rightarrow> nat \<Rightarrow> request" where
  "sample_request m u k = \<lparr>verb = m, user = Authenticated u, data = [], pk_kwarg = k\<rparr>"

definition anonymous_request :: "http_method \<Rightarrow> nat \<Rightarrow> request" where
  "anonymous_request m k = \<lparr>verb = m, user = AnonymousUser, data = [], pk_kwarg = k\<rparr>"

text \<open>Requests of user \<open>u\<close> with a payload \<open>d\<close>.\<close>

definition sample_payload :: "http_method \<Rightarrow> nat \<Rightarrow> nat \<Rightarrow> json \<Rightarrow> request" where
  "sample_payload m u k d = \<lparr>verb = m, user = Authenticated u, data = d, pk_kwarg = k\<rparr>"

definition sample_post :: "nat \<Rightarrow> request" where
  "sample_post u = sample_payload POST u 0 [(''name'', ''logic'')]"

text \<open>The sample database with its backend failing.\<close>

definition sample_db_down :: database where
  "sample_db_down = sample_db\<lparr>db_down := True\<rparr>"

text \<open>
  The sample project with hyperlinked serializers: every rendering has a \<open>url\<close> field
  (the same for every row, for brevity).
\<close>

definition sample_env_hyperlinked :: env where
  "sample_env_hyperlinked =
     sample_env\<lparr>to_representation := (\<lambda>ser rw. (''url'', ''/api/item/'') # cols rw)\<rparr>"

text \<open>
  The sample project with a comment model that also declares a relation \<open>task\<close>, to
  tasks, and a comment that has it set.
\<close>

definition direct_schema :: "model \<Rightarrow> string \<Rightarrow> model option" where
  "direct_schema m f =
     (if m = TaskComments \<and> f = ''task'' then Some LectureTask else spec_schema m f)"

definition sample_env_direct :: env where
  "sample_env_direct = sample_env\<lparr>schema := direct_schema\<rparr>"

definition sample_db_direct :: database where
  "sample_db_direct =
     sample_db\<lparr>tables := sample_tables(TaskComments :=
       [\<lparr>pk = 1, rels = [(''taskcontrol'', [1]), (''task'', [1])],
          cols = [(''comment'', ''good'')]\<rparr>])\<rparr>"

section \<open>Properties\<close>

subsection \<open>Auxiliary facts\<close>

lemmas sample_simps = sample_env_def sample_db_def sample_tables_def sample_request_def
  sample_post_def sample_db_down_def sample_columns_def anonymous_request_def sample_payload_def
  sample_env_direct_def sample_db_direct_def direct_schema_def sample_env_hyperlinked_def
  get_queryset_def objects_filter_def related_of_def get_object_def dispatch_def
  check_permissions_def check_object_permissions_def list_def retrieve_def update_def
  destroy_def create_def

lemma chain_course:
  "sc Course ''users'' = Some User \<Longrightarrow> chain sc db Course [''users''] u r = is_member db u r"
  by (simp add: is_member_def)

lemma chain_lecture:
  "sc Course ''users'' = Some User \<Longrightarrow> sc Lecture ''course'' = Some Course \<Longrightarrow>
   chain sc db Lecture [''course'', ''users''] u r = lecture_visible db u r"
  by (simp add: lecture_visible_def is_member_def)

lemma chain_task:
  "sc Course ''users'' = Some User \<Longrightarrow> sc Lecture ''course'' = Some Course \<Longrightarrow>
   sc LectureTask ''lecture'' = Some Lecture \<Longrightarrow>
   chain sc db LectureTask [''lecture'', ''course'', ''users''] u r = task_visible db u r"
  by (simp add: task_visible_def lecture_visible_def is_member_def)

lemma get_queryset_chain:
  "get_queryset e v req db = Inr qs \<Longrightarrow>
   qs = filter (\<lambda>rw. chain (schema e) db (queryset_model v) (lookup v) (user req) (pk rw))
          (tables db (queryset_model v))"
  by (auto simp: get_queryset_def objects_filter_def split: option.splits if_splits)

lemma handle_exception_Inr:
  "handle_exception err db = Inr (resp, db') \<Longrightarrow> db' = db \<and> body resp = Detail err"
  by (cases err) auto

lemma get_object_in_queryset:
  assumes "get_object e v req db = Inr rw"
  shows "\<exists>qs. get_queryset e v req db = Inr qs \<and> rw \<in> set qs \<and> pk rw = pk_kwarg req"
proof -
  from assms obtain qs where qs: "get_queryset e v req db = Inr qs"
    by (auto simp: get_object_def split: sum.splits)
  with assms have "filter (\<lambda>r. pk r = pk_kwarg req) qs = [rw]"
    by (auto simp: get_object_def split: list.splits if_splits)
  then have "rw \<in> set (filter (\<lambda>r. pk r = pk_kwarg req) qs)"
    by simp
  with qs show ?thesis by auto
qed

lemma queryset_visible:
  assumes "schema e Course ''users'' = Some User"
    and "schema e Lecture ''course'' = Some Course"
    and "schema e LectureTask ''lecture'' = Some Lecture"
    and "v \<in> {CourseList, CourseDetail, LectureList, LectureDetail, TaskList, TaskDetail}"
    and "get_queryset e v req db = Inr qs"
    and "rw \<in> set qs"
  shows "rw \<in> set (tables db (queryset_model v)) \<and>
         visible db (user req) (queryset_model v) (pk rw)"
  using assms(4,6) get_queryset_chain [OF assms(5)]
    chain_course [of "schema e", OF assms(1)] chain_lecture [of "schema e", OF assms(1,2)]
    chain_task [of "schema e", OF assms(1,2,3)]
  by auto

lemma dispatch_cases:
  assumes "dispatch e v req db = Inr (resp, db')"
  shows "(db' = db \<and> (\<exists>err. body resp = Detail err)) \<or>
         (\<exists>h. check_permissions e v req \<and> handler v (verb req) = Some h \<and>
              h e v req db = Inr (resp, db'))"
  using assms
  by (auto simp: dispatch_def simp del: handle_exception.simps
      split: if_splits option.splits sum.splits dest!: handle_exception_Inr)

lemma detail_handlers:
  "v \<in> {CourseDetail, LectureDetail, TaskDetail, TaskControlDetail, TaskCommentsDetail} \<Longrightarrow>
   handler v m = Some h \<Longrightarrow> h = retrieve \<or> h = update \<or> h = destroy"
  by (cases m) auto

lemma detail_needs_object:
  assumes "h = retrieve \<or> h = update \<or> h = destroy"
    and "h e v req db = Inr r"
  shows "\<exists>rw. get_object e v req db = Inr rw"
  using assms by (auto simp: retrieve_def update_def destroy_def split: sum.splits)

text \<open>Requests that pass the permission check, list and detail requests in general.\<close>

lemma dispatch_handler:
  "check_permissions e v req \<Longrightarrow> handler v (verb req) = Some h \<Longrightarrow>
   dispatch e v req db = (case h e v req db of Inl err \<Rightarrow> handle_exception err db | Inr r \<Rightarrow> Inr r)"
  by (simp add: dispatch_def)

lemma queryset_subset:
  "get_queryset e v req db = Inr qs \<Longrightarrow> set qs \<subseteq> set (tables db (queryset_model v))"
  by (auto dest: get_queryset_chain)

lemma chain_taskcontrol:
  "sc Course ''users'' = Some User \<Longrightarrow> sc Lecture ''course'' = Some Course \<Longrightarrow>
   sc LectureTask ''lecture'' = Some Lecture \<Longrightarrow> sc TaskControl ''task'' = Some LectureTask \<Longrightarrow>
   chain sc db TaskControl [''task'', ''lecture'', ''course'', ''users''] u r
     = taskcontrol_visible db u r"
  using chain_task [of sc db u] by (simp add: taskcontrol_visible_def)

lemma chain_comment:
  "sc Course ''users'' = Some User \<Longrightarrow> sc Lecture ''course'' = Some Course \<Longrightarrow>
   sc LectureTask ''lecture'' = Some Lecture \<Longrightarrow> sc TaskControl ''task'' = Some LectureTask \<Longrightarrow>
   sc TaskComments ''taskcontrol'' = Some TaskControl \<Longrightarrow>
   chain sc db TaskComments [''taskcontrol'', ''task'', ''lecture'', ''course'', ''users''] u r
     = comment_visible db u r"
  using chain_taskcontrol [of sc db u] by (simp add: comment_visible_def)

lemma chain_comment_task:
  "sc Course ''users'' = Some User \<Longrightarrow> sc Lecture ''course'' = Some Course \<Longrightarrow>
   sc LectureTask ''lecture'' = Some Lecture \<Longrightarrow> sc TaskComments ''task'' = Some LectureTask \<Longrightarrow>
   chain sc db TaskComments [''task'', ''lecture'', ''course'', ''users''] u r
     = comment_task_visible db u r"
  using chain_task [of sc db u] by (simp add: comment_task_visible_def)

lemma list_get_only:
  assumes "handler v (verb req) = Some list"
    and "dispatch e v req db = Inr (resp, db')"
    and "\<And>qs rw. get_queryset e v req db = Inr qs \<Longrightarrow> rw \<in> set qs \<Longrightarrow> P (pk rw)"
  shows "db' = db \<and>
       ((\<exists>err. body resp = Detail err) \<or>
        (\<exists>qs. body resp = Many (map (to_representation e (serializer_class v)) qs) \<and>
           (\<forall>rw \<in> set qs. P (pk rw))))"
proof -
  from dispatch_cases [OF assms(2)] assms(1) consider
      (exc) "db' = db \<and> (\<exists>err. body resp = Detail err)"
    | (ok) "list e v req db = Inr (resp, db')"
    by auto
  then show ?thesis
  proof cases
    case exc
    then show ?thesis by blast
  next
    case ok
    then obtain qs where qs: "get_queryset e v req db = Inr qs"
      and r: "body resp = Many (map (to_representation e (serializer_class v)) qs)" "db' = db"
      by (auto simp: list_def split: sum.splits)
    from assms(3) [OF qs] have "\<forall>rw \<in> set qs. P (pk rw)" by blast
    with r show ?thesis by blast
  qed
qed

lemma detail_outside:
  assumes "v \<in> {CourseDetail, LectureDetail, TaskDetail, TaskControlDetail, TaskCommentsDetail}"
    and "dispatch e v req db = Inr (resp, db')"
    and "\<not> P (pk_kwarg req)"
    and "\<And>qs rw. get_queryset e v req db = Inr qs \<Longrightarrow> rw \<in> set qs \<Longrightarrow> P (pk rw)"
  shows "db' = db \<and> (\<exists>err. body resp = Detail err)"
proof -
  have no_obj: "get_object e v req db \<noteq> Inr rw" for rw
  proof
    assume "get_object e v req db = Inr rw"
    from get_object_in_queryset [OF this] obtain qs where
      "get_queryset e v req db = Inr qs" "rw \<in> set qs" "pk rw = pk_kwarg req" by blast
    with assms(4) [OF this(1,2)] assms(3) show False by simp
  qed
  from dispatch_cases [OF assms(2)] consider
      (exc) "db' = db \<and> (\<exists>err. body resp = Detail err)"
    | (ok) h where "handler v (verb req) = Some h" "h e v req db = Inr (resp, db')"
    by auto
  then show ?thesis
  proof cases
    case exc
    then show ?thesis .
  next
    case ok
    have "h = retrieve \<or> h = update \<or> h = destroy"
      by (rule detail_handlers [OF assms(1) ok(1)])
    then have "\<exists>rw. get_object e v req db = Inr rw"
      using ok(2) by (rule detail_needs_object)
    with no_obj show ?thesis by blast
  qed
qed

lemma allow_any_views:
  "v \<in> {TaskControlList, TaskControlDetail, TaskCommentsList, TaskCommentsDetail} \<Longrightarrow>
   check_permissions e v req"
  by (auto simp: check_permissions_def)






text \<open>Fresh primary keys, and what the two create operations do to the database.\<close>

lemma fold_max_ge: "(a::nat) \<le> fold max xs a"
  by (induction xs arbitrary: a) (auto intro: order_trans [OF max.cobounded2])

lemma fold_max_mem: "x \<in> set xs \<Longrightarrow> (x::nat) \<le> fold max xs a"
proof (induction xs arbitrary: a)
  case Nil
  then show ?case by simp
next
  case (Cons y ys)
  show ?case
  proof (cases "x = y")
    case True
    have "y \<le> max y a" by simp
    also have "\<dots> \<le> fold max ys (max y a)" by (rule fold_max_ge)
    finally show ?thesis using True by simp
  next
    case False
    with Cons show ?thesis by simp
  qed
qed

lemma new_pk_fresh: "rw \<in> set rws \<Longrightarrow> pk rw < new_pk rws"
  using fold_max_mem [of "pk rw" "map pk rws" 0] by (simp add: new_pk_def)

lemma new_pk_notin: "new_pk rws \<notin> pk ` set rws"
  using new_pk_fresh by fastforce

lemma save_keeps_old:
  "map (\<lambda>old. if pk old = new_pk rws then new' else old) rws = rws"
proof (rule map_idI)
  fix x assume "x \<in> set rws"
  from new_pk_fresh [OF this] show "(if pk x = new_pk rws then new' else x) = x"
    by simp
qed

lemma pk_related_add [simp]: "pk (related_add rw f x) = pk rw"
  by (simp add: related_add_def set_related_def)

lemma cols_related_add [simp]: "cols (related_add rw f x) = cols rw"
  by (simp add: related_add_def set_related_def)

lemma related_of_set_related: "related_of (set_related rw f ps) f = ps"
  by (simp add: set_related_def related_of_def)

lemma related_add_mem: "x \<in> set (related_of (related_add rw f x) f)"
  by (simp add: related_add_def related_of_set_related)

lemma map_of_filter_other:
  "g \<noteq> f \<Longrightarrow> map_of (filter (\<lambda>p. fst p \<noteq> f) xs) g = map_of xs g"
  by (induction xs) auto

lemma related_add_other:
  "g \<noteq> f \<Longrightarrow> map_of (rels (related_add rw f x)) g = map_of (rels rw) g"
  by (simp add: related_add_def set_related_def map_of_filter_other)

lemma CourseList_post_effect:
  assumes "\<not> db_down db"
    and "run_validation e (serializer_class self) db None (data req) = Some vd"
    and "user req = Authenticated u"
  shows "CourseList_post e self req db =
     (let m = serializer_model (serializer_class self);
          new = related_add \<lparr>pk = new_pk (tables db m), rels = fst vd, cols = snd vd\<rparr> ''users'' u;
          d = to_representation e (serializer_class self) new
      in Inr (\<lparr>status = 201, body = One d, headers = get_success_headers d\<rparr>,
              db\<lparr>tables := (tables db)(m := tables db m @ [new])\<rparr>))"
  using assms
  by (simp add: CourseList_post_def objects_create_def instance_save_def Let_def save_keeps_old)

lemma create_effect:
  assumes "\<not> db_down db"
    and "run_validation e (serializer_class self) db None (data req) = Some vd"
  shows "create e self req db =
     (let m = serializer_model (serializer_class self);
          new = \<lparr>pk = new_pk (tables db m), rels = fst vd, cols = snd vd\<rparr>;
          d = to_representation e (serializer_class self) new
      in Inr (\<lparr>status = 201, body = One d, headers = get_success_headers d\<rparr>,
              db\<lparr>tables := (tables db)(m := tables db m @ [new])\<rparr>))"
  using assms
  by (simp add: create_def objects_create_def Let_def)

subsection \<open>Course, Lecture and Task views are scoped to the user's courses\<close>

text \<open>
  C1. Whatever the requesting user is, the Course, Lecture and Task views return and act on
  rows of the user's courses only. With the relations of the spec's data model declared:
  every row of the queryset of these six views reaches a course that has the user as a
  member; a GET on a list view answers with an error or with the rendering of such rows,
  and changes nothing; and a request to a detail view for a primary key outside this set
  is answered with an error body and changes nothing, whatever its verb.
\<close>

theorem member_scoped_views:
  assumes "schema e Course ''users'' = Some User"
    and "schema e Lecture ''course'' = Some Course"
    and "schema e LectureTask ''lecture'' = Some Lecture"
    and "v \<in> {CourseList, CourseDetail, LectureList, LectureDetail, TaskList, TaskDetail}"
  shows "(\<forall>qs. get_queryset e v req db = Inr qs \<longrightarrow>
            (\<forall>rw \<in> set qs. visible db (user req) (queryset_model v) (pk rw)))
       \<and> (\<forall>resp db'. v \<in> {CourseList, LectureList, TaskList} \<and> verb req = GET \<and>
              dispatch e v req db = Inr (resp, db') \<longrightarrow>
              db' = db \<and>
              ((\<exists>err. body resp = Detail err) \<or>
               (\<exists>qs. body resp = Many (map (to_representation e (serializer_class v)) qs) \<and>
                  (\<forall>rw \<in> set qs. visible db (user req) (queryset_model v) (pk rw)))))
       \<and> (\<forall>resp db'. v \<in> {CourseDetail, LectureDetail, TaskDetail} \<and>
              \<not> visible db (user req) (queryset_model v) (pk_kwarg req) \<and>
              dispatch e v req db = Inr (resp, db') \<longrightarrow>
              db' = db \<and> (\<exists>err. body resp = Detail err))"
proof -
  note vis = queryset_visible [OF assms, THEN conjunct2]
  have 1: "\<forall>qs. get_queryset e v req db = Inr qs \<longrightarrow>
            (\<forall>rw \<in> set qs. visible db (user req) (queryset_model v) (pk rw))"
    using vis by blast
  have 2: "db' = db \<and>
              ((\<exists>err. body resp = Detail err) \<or>
               (\<exists>qs. body resp = Many (map (to_representation e (serializer_class v)) qs) \<and>
                  (\<forall>rw \<in> set qs. visible db (user req) (queryset_model v) (pk rw))))"
    if "v \<in> {CourseList, LectureList, TaskList} \<and> verb req = GET \<and>
        dispatch e v req db = Inr (resp, db')" for resp db'
  proof (rule list_get_only [where P = "visible db (user req) (queryset_model v)"])
    from that show "handler v (verb req) = Some list" by auto
    from that show "dispatch e v req db = Inr (resp, db')" by simp
  qed (rule vis)
  have 3: "db' = db \<and> (\<exists>err. body resp = Detail err)"
    if "v \<in> {CourseDetail, LectureDetail, TaskDetail} \<and>
        \<not> visible db (user req) (queryset_model v) (pk_kwarg req) \<and>
        dispatch e v req db = Inr (resp, db')" for resp db'
  proof (rule detail_outside [where P = "visible db (user req) (queryset_model v)"])
    from that
    show "v \<in> {CourseDetail, LectureDetail, TaskDetail, TaskControlDetail, TaskCommentsDetail}"
      by auto
    from that show "dispatch e v req db = Inr (resp, db')" by simp
    from that show "\<not> visible db (user req) (queryset_model v) (pk_kwarg req)" by simp
  qed (rule vis)
  from 1 2 3 show ?thesis by blast
qed

text \<open>
  In the sample project user 1 lists the one lecture, which is visible to them; user 2, a
  member of no course, asks for course 1 and gets a 404.
\<close>

theorem member_scoped_views_witness:
  "schema sample_env Course ''users'' = Some User \<and>
   schema sample_env Lecture ''course'' = Some Course \<and>
   schema sample_env LectureTask ''lecture'' = Some Lecture \<and>
   get_queryset sample_env LectureList (sample_request GET 1 0) sample_db
     = Inr [\<lparr>pk = 1, rels = [(''course'', [1])], cols = [(''topic'', ''groups'')]\<rparr>] \<and>
   visible sample_db (Authenticated 1) Lecture 1 \<and>
   \<not> visible sample_db (Authenticated 2) Course 1 \<and>
   dispatch sample_env CourseDetail (sample_request GET 2 1) sample_db
     = Inr (\<lparr>status = 404, body = Detail Http404, headers = []\<rparr>, sample_db)"
proof -
  have s: "schema sample_env Course ''users'' = Some User"
    "schema sample_env Lecture ''course'' = Some Course"
    "schema sample_env LectureTask ''lecture'' = Some Lecture"
    by (simp_all add: sample_env_def)
  have q: "get_queryset sample_env LectureList (sample_request GET 1 0) sample_db
     = Inr [\<lparr>pk = 1, rels = [(''course'', [1])], cols = [(''topic'', ''groups'')]\<rparr>]"
    by (simp add: sample_simps)
  have "visible sample_db (user (sample_request GET 1 0)) (queryset_model LectureList)
          (pk \<lparr>pk = 1, rels = [(''course'', [1])], cols = [(''topic'', ''groups'')]\<rparr>)"
    using member_scoped_views [OF s, of LectureList "sample_request GET 1 0" sample_db] q
    by simp
  then have v: "visible sample_db (Authenticated 1) Lecture 1"
    by (simp add: sample_request_def)
  have n: "\<not> visible sample_db (Authenticated 2) Course 1"
    by (simp add: is_member_def sample_simps)
  have d: "dispatch sample_env CourseDetail (sample_request GET 2 1) sample_db
     = Inr (\<lparr>status = 404, body = Detail Http404, headers = []\<rparr>, sample_db)"
    by (simp add: sample_simps)
  from s q v n d show ?thesis by blast
qed

subsection \<open>Creating a course adds its creator as a member\<close>

text \<open>
  C2, as the code has it. A POST on a list view that passes the permission check with a
  payload its serializer accepts, on a working database, is answered with 201, the
  rendering of the new row, and the headers computed from that rendering: a
  \<^verbatim>\<open>Location\<close> header that carries the rendering's \<open>url\<close> field when it has one, and
  no header when it has none. The new row has a primary key no row of the table had, and
  is appended to the table of the serializer's model, every other table staying as it was.
  On the Course list the requesting user, an authenticated user, is among the \<open>users\<close>
  of the new course (its other relations are those of the payload); on every other list
  view the relations of the new row are exactly those of the payload, so the user is not
  attached.
\<close>

theorem course_creation_adds_member:
  assumes "v \<in> {CourseList, LectureList, TaskList, TaskControlList, TaskCommentsList}"
    and "verb req = POST"
    and "check_permissions e v req"
    and "\<not> db_down db"
    and "run_validation e (serializer_class v) db None (data req) = Some vd"
    and "v = CourseList \<longrightarrow> user req = Authenticated u"
  shows "\<exists>new db'.
     dispatch e v req db =
       Inr (\<lparr>status = 201,
             body = One (to_representation e (serializer_class v) new),
             headers =
               (case map_of (to_representation e (serializer_class v) new) ''url'' of
                  None \<Rightarrow> []
                | Some l \<Rightarrow> [(''Location'', l)])\<rparr>, db')
     \<and> pk new \<notin> pk ` set (tables db (serializer_model (serializer_class v)))
     \<and> tables db' = (tables db)(serializer_model (serializer_class v) :=
                        tables db (serializer_model (serializer_class v)) @ [new])
     \<and> cols new = snd vd
     \<and> (if v = CourseList
         then serializer_model (serializer_class v) = Course
              \<and> u \<in> set (related_of new ''users'')
              \<and> (\<forall>f. f \<noteq> ''users'' \<longrightarrow> map_of (rels new) f = map_of (fst vd) f)
         else rels new = fst vd)"
proof (cases "v = CourseList")
  case True
  let ?m = "serializer_model (serializer_class v)"
  let ?new = "related_add \<lparr>pk = new_pk (tables db ?m), rels = fst vd, cols = snd vd\<rparr> ''users'' u"
  let ?db' = "db\<lparr>tables := (tables db)(?m := tables db ?m @ [?new])\<rparr>"
  from True assms have h: "handler v (verb req) = Some CourseList_post" by simp
  from True assms(6) have a: "user req = Authenticated u" by simp
  have "dispatch e v req db =
       Inr (\<lparr>status = 201,
             body = One (to_representation e (serializer_class v) ?new),
             headers =
               (case map_of (to_representation e (serializer_class v) ?new) ''url'' of
                  None \<Rightarrow> []
                | Some l \<Rightarrow> [(''Location'', l)])\<rparr>, ?db')"
    using CourseList_post_effect [OF assms(4,5) a]
    by (simp add: dispatch_handler [OF assms(3) h] Let_def get_success_headers_def)
  moreover have "pk ?new \<notin> pk ` set (tables db ?m)"
    using new_pk_notin [of "tables db ?m"] by simp
  moreover have "tables ?db' = (tables db)(?m := tables db ?m @ [?new])" by simp
  moreover have "cols ?new = snd vd" by simp
  moreover have "?m = Course" using True by simp
  moreover have "u \<in> set (related_of ?new ''users'')" by (rule related_add_mem)
  moreover have "\<forall>f. f \<noteq> ''users'' \<longrightarrow> map_of (rels ?new) f = map_of (fst vd) f"
    by (simp add: related_add_other)
  ultimately show ?thesis using True by (intro exI [of _ ?new] exI [of _ ?db']) simp
next
  case False
  let ?m = "serializer_model (serializer_class v)"
  let ?new = "\<lparr>pk = new_pk (tables db ?m), rels = fst vd, cols = snd vd\<rparr>"
  let ?db' = "db\<lparr>tables := (tables db)(?m := tables db ?m @ [?new])\<rparr>"
  from False assms have h: "handler v (verb req) = Some create" by auto
  have "dispatch e v req db =
       Inr (\<lparr>status = 201,
             body = One (to_representation e (serializer_class v) ?new),
             headers =
               (case map_of (to_representation e (serializer_class v) ?new) ''url'' of
                  None \<Rightarrow> []
                | Some l \<Rightarrow> [(''Location'', l)])\<rparr>, ?db')"
    using create_effect [OF assms(4,5)]
    by (simp add: dispatch_handler [OF assms(3) h] Let_def get_success_headers_def)
  moreover have "pk ?new \<notin> pk ` set (tables db ?m)"
    using new_pk_notin [of "tables db ?m"] by simp
  ultimately show ?thesis using False by (intro exI [of _ ?new] exI [of _ ?db']) simp
qed

text \<open>
  In the sample project with hyperlinked serializers user 2 creates a course, is its
  member afterwards, and the response carries the \<^verbatim>\<open>Location\<close> header.
\<close>

theorem course_creation_adds_member_witness:
  "verb (sample_post 2) = POST \<and>
   check_permissions sample_env_hyperlinked CourseList (sample_post 2) \<and>
   \<not> db_down sample_db \<and>
   run_validation sample_env_hyperlinked (serializer_class CourseList) sample_db None
     (data (sample_post 2)) = Some ([], [(''name'', ''logic'')]) \<and>
   user (sample_post 2) = Authenticated 2 \<and>
   (\<exists>new db'.
      dispatch sample_env_hyperlinked CourseList (sample_post 2) sample_db =
        Inr (\<lparr>status = 201, body = One [(''url'', ''/api/item/''), (''name'', ''logic'')],
              headers = [(''Location'', ''/api/item/'')]\<rparr>, db')
      \<and> tables db' Course = tables sample_db Course @ [new]
      \<and> cols new = [(''name'', ''logic'')]
      \<and> 2 \<in> set (related_of new ''users''))"
proof -
  have h: "CourseList \<in> {CourseList, LectureList, TaskList, TaskControlList, TaskCommentsList}"
    "verb (sample_post 2) = POST"
    "check_permissions sample_env_hyperlinked CourseList (sample_post 2)"
    "\<not> db_down sample_db"
    "run_validation sample_env_hyperlinked (serializer_class CourseList) sample_db None
       (data (sample_post 2)) = Some ([], [(''name'', ''logic'')])"
    by (simp_all add: sample_env_hyperlinked_def sample_env_def sample_db_def sample_post_def
        sample_payload_def check_permissions_def)
  have a: "user (sample_post 2) = Authenticated 2"
    by (simp add: sample_post_def sample_payload_def)
  then have g: "CourseList = CourseList \<longrightarrow> user (sample_post 2) = Authenticated 2"
    by simp
  from course_creation_adds_member [OF h g] obtain new db' where
    "dispatch sample_env_hyperlinked CourseList (sample_post 2) sample_db =
       Inr (\<lparr>status = 201,
             body = One (to_representation sample_env_hyperlinked (serializer_class CourseList) new),
             headers =
               (case map_of (to_representation sample_env_hyperlinked
                               (serializer_class CourseList) new) ''url'' of
                  None \<Rightarrow> []
                | Some l \<Rightarrow> [(''Location'', l)])\<rparr>, db')"
    "tables db' = (tables sample_db)(Course := tables sample_db Course @ [new])"
    "cols new = [(''name'', ''logic'')]"
    "2 \<in> set (related_of new ''users'')"
    by auto
  then have "dispatch sample_env_hyperlinked CourseList (sample_post 2) sample_db =
        Inr (\<lparr>status = 201, body = One [(''url'', ''/api/item/''), (''name'', ''logic'')],
              headers = [(''Location'', ''/api/item/'')]\<rparr>, db')
      \<and> tables db' Course = tables sample_db Course @ [new]
      \<and> cols new = [(''name'', ''logic'')]
      \<and> 2 \<in> set (related_of new ''users'')"
    by (simp add: sample_env_hyperlinked_def sample_env_def)
  with h a show ?thesis by blast
qed

text \<open>
  C2, as the spec states it, fails: a valid creation need not be answered with a
  \<^verbatim>\<open>Location\<close> header. In the sample project, whose serializers render no \<open>url\<close>
  field, the valid creation of a course by user 2 is answered with 201, the rendering of
  the new course, and no header at all.
\<close>

theorem creation_without_location_counterexample:
  "check_permissions sample_env CourseList (sample_post 2) \<and>
   run_validation sample_env (serializer_class CourseList) sample_db None (data (sample_post 2))
     = Some ([], [(''name'', ''logic'')]) \<and>
   dispatch sample_env CourseList (sample_post 2) sample_db =
     Inr (\<lparr>status = 201, body = One [(''name'', ''logic'')], headers = []\<rparr>,
          sample_db\<lparr>tables := sample_tables(Course :=
            [\<lparr>pk = 1, rels = [(''users'', [1])], cols = [(''name'', ''algebra'')]\<rparr>,
             \<lparr>pk = 2, rels = [(''users'', [2])], cols = [(''name'', ''logic'')]\<rparr>])\<rparr>)"
  by (simp add: sample_simps CourseList_post_def objects_create_def instance_save_def
      new_pk_def related_add_def set_related_def get_success_headers_def Let_def
      numeral_2_eq_2)

subsection \<open>TaskControl and TaskComments: open permissions, scoped querysets\<close>




subsection \<open>GET on the detail views\<close>

text \<open>
  Of the five detail views only \<^verbatim>\<open>CourseDetail\<close> defines \<^verbatim>\<open>get\<close>. There a GET
  answers with the row of the scoped queryset under the primary key of the URL, or with
  the response of the exception \<^verbatim>\<open>get_object\<close> raised (404 for a row that is missing or
  out of scope alike). The other four detail views answer every permitted GET with 405.
\<close>

lemma detail_get_405:
  assumes "v \<in> {LectureDetail, TaskDetail, TaskControlDetail, TaskCommentsDetail}"
    and "verb req = GET"
    and "check_permissions e v req"
  shows "dispatch e v req db =
           Inr (\<lparr>status = 405, body = Detail MethodNotAllowed, headers = []\<rparr>, db)"
  using assms by (auto simp: dispatch_def)

lemma course_detail_get:
  assumes "verb req = GET" and "check_permissions e CourseDetail req"
  shows "dispatch e CourseDetail req db =
     (case get_object e CourseDetail req db of
        Inl err \<Rightarrow> handle_exception err db
      | Inr rw \<Rightarrow>
          Inr (\<lparr>status = 200, body = One (to_representation e CourseSerializer rw),
                headers = []\<rparr>, db))"
  using assms by (simp add: dispatch_def retrieve_def split: sum.splits)

text \<open>
  C4 does not hold for the Lecture, Task, TaskControl and TaskComments detail views. In
  the sample project task 1 is in the scoped queryset of user 1, yet a GET of user 1 on the
  Task detail view for primary key 1 is answered with 405, not with the row; the same
  request on the Course detail view returns course 1.
\<close>

theorem detail_get_not_allowed:
  "get_object sample_env TaskDetail (sample_request GET 1 1) sample_db
     = Inr \<lparr>pk = 1, rels = [(''lecture'', [1])], cols = [(''text'', ''exercise'')]\<rparr> \<and>
   dispatch sample_env TaskDetail (sample_request GET 1 1) sample_db
     = Inr (\<lparr>status = 405, body = Detail MethodNotAllowed, headers = []\<rparr>, sample_db) \<and>
   dispatch sample_env CourseDetail (sample_request GET 1 1) sample_db
     = Inr (\<lparr>status = 200, body = One [(''name'', ''algebra'')], headers = []\<rparr>, sample_db)"
  by (simp add: sample_simps)

subsection \<open>Invalid payloads\<close>

text \<open>
  C5. A create or update request whose payload fails the serializer's validation stores
  nothing and is answered with 400 and the validation error: for a POST on a list view
  that passed the permission check, and for a PUT on a detail view that passed it and
  whose row was found (an update validates the payload against the row it found), the
  response is 400 and the database is the one the request met.
\<close>

theorem invalid_payload_rejected:
  assumes "check_permissions e v req"
  shows "(verb req = POST \<and>
          v \<in> {CourseList, LectureList, TaskList, TaskControlList, TaskCommentsList} \<and>
          run_validation e (serializer_class v) db None (data req) = None \<longrightarrow>
          dispatch e v req db =
            Inr (\<lparr>status = 400, body = Detail ValidationError, headers = []\<rparr>, db))
       \<and> (\<forall>obj. verb req = PUT \<and>
          v \<in> {CourseDetail, LectureDetail, TaskDetail, TaskControlDetail, TaskCommentsDetail} \<and>
          get_object e v req db = Inr obj \<and>
          run_validation e (serializer_class v) db (Some obj) (data req) = None \<longrightarrow>
          dispatch e v req db =
            Inr (\<lparr>status = 400, body = Detail ValidationError, headers = []\<rparr>, db))"
proof (intro conjI allI impI)
  assume a: "verb req = POST \<and>
          v \<in> {CourseList, LectureList, TaskList, TaskControlList, TaskCommentsList} \<and>
          run_validation e (serializer_class v) db None (data req) = None"
  then have "handler v (verb req) = Some CourseList_post \<or> handler v (verb req) = Some create"
    by auto
  then show "dispatch e v req db =
            Inr (\<lparr>status = 400, body = Detail ValidationError, headers = []\<rparr>, db)"
    using a assms by (auto simp: dispatch_handler CourseList_post_def create_def)
next
  fix obj
  assume a: "verb req = PUT \<and>
          v \<in> {CourseDetail, LectureDetail, TaskDetail, TaskControlDetail, TaskCommentsDetail} \<and>
          get_object e v req db = Inr obj \<and>
          run_validation e (serializer_class v) db (Some obj) (data req) = None"
  then have "handler v (verb req) = Some update" by auto
  then show "dispatch e v req db =
            Inr (\<lparr>status = 400, body = Detail ValidationError, headers = []\<rparr>, db)"
    using a assms by (simp add: dispatch_handler update_def)
qed

text \<open>
  In the sample project the empty payload is invalid: a POST of it on the Course list and
  a PUT of it on course 1 are answered with 400 and leave the database as it was.
\<close>

theorem invalid_payload_rejected_witness:
  "check_permissions sample_env CourseList (sample_request POST 1 0) \<and>
   run_validation sample_env (serializer_class CourseList) sample_db None
     (data (sample_request POST 1 0)) = None \<and>
   dispatch sample_env CourseList (sample_request POST 1 0) sample_db =
     Inr (\<lparr>status = 400, body = Detail ValidationError, headers = []\<rparr>, sample_db) \<and>
   check_permissions sample_env CourseDetail (sample_request PUT 1 1) \<and>
   get_object sample_env CourseDetail (sample_request PUT 1 1) sample_db
     = Inr \<lparr>pk = 1, rels = [(''users'', [1])], cols = [(''name'', ''algebra'')]\<rparr> \<and>
   dispatch sample_env CourseDetail (sample_request PUT 1 1) sample_db =
     Inr (\<lparr>status = 400, body = Detail ValidationError, headers = []\<rparr>, sample_db)"
proof -
  have p: "check_permissions sample_env CourseList (sample_request POST 1 0)"
    "check_permissions sample_env CourseDetail (sample_request PUT 1 1)"
    by (simp_all add: sample_env_def check_permissions_def)
  have v: "run_validation sample_env (serializer_class CourseList) sample_db None
     (data (sample_request POST 1 0)) = None"
    by (simp add: sample_env_def sample_request_def)
  have o: "get_object sample_env CourseDetail (sample_request PUT 1 1) sample_db
     = Inr \<lparr>pk = 1, rels = [(''users'', [1])], cols = [(''name'', ''algebra'')]\<rparr>"
    by (simp add: sample_simps)
  have w: "run_validation sample_env (serializer_class CourseDetail) sample_db
     (Some \<lparr>pk = 1, rels = [(''users'', [1])], cols = [(''name'', ''algebra'')]\<rparr>)
     (data (sample_request PUT 1 1)) = None"
    by (simp add: sample_env_def sample_request_def)
  have "dispatch sample_env CourseList (sample_request POST 1 0) sample_db =
     Inr (\<lparr>status = 400, body = Detail ValidationError, headers = []\<rparr>, sample_db)"
    using invalid_payload_rejected [OF p(1), of sample_db] v
    by (simp add: sample_request_def)
  moreover have "dispatch sample_env CourseDetail (sample_request PUT 1 1) sample_db =
     Inr (\<lparr>status = 400, body = Detail ValidationError, headers = []\<rparr>, sample_db)"
    using invalid_payload_rejected [OF p(2), of sample_db] o w
    by (simp add: sample_request_def)
  ultimately show ?thesis using p v o by blast
qed

subsection \<open>Deleting a row removes it from the list\<close>

text \<open>
  C6. On every detail view, a DELETE that passed the permission check and whose row was
  found in the scoped queryset is answered with 204; afterwards the table has no row under
  that primary key, and a GET on the list view of the same resource, by the same user or
  any other, renders a result set without it.
\<close>

theorem delete_removes_from_list:
  assumes "v \<in> {CourseDetail, LectureDetail, TaskDetail, TaskControlDetail, TaskCommentsDetail}"
    and "verb req = DELETE"
    and "check_permissions e v req"
    and "get_object e v req db = Inr obj"
  shows "\<exists>db'. dispatch e v req db = Inr (\<lparr>status = 204, body = NoBody, headers = []\<rparr>, db')
     \<and> pk_kwarg req \<notin> pk ` set (tables db' (queryset_model v))
     \<and> (\<forall>req' resp db''. verb req' = GET \<and>
            dispatch e (list_view v) req' db' = Inr (resp, db'') \<longrightarrow>
            (\<exists>err. body resp = Detail err) \<or>
            (\<exists>qs. body resp = Many (map (to_representation e (serializer_class (list_view v))) qs)
               \<and> pk_kwarg req \<notin> pk ` set qs))"
proof -
  let ?db' = "instance_delete db (queryset_model v) obj"
  from assms(1,2) have h: "handler v (verb req) = Some destroy" by auto
  have pk: "pk obj = pk_kwarg req"
    using get_object_in_queryset [OF assms(4)] by blast
  have d: "dispatch e v req db = Inr (\<lparr>status = 204, body = NoBody, headers = []\<rparr>, ?db')"
    using assms(4) by (simp add: dispatch_handler [OF assms(3) h] destroy_def)
  have gone: "pk_kwarg req \<notin> pk ` set (tables ?db' (queryset_model v))"
    using pk by (auto simp: instance_delete_def)
  have m: "queryset_model (list_view v) = queryset_model v"
    using assms(1) by auto
  have lst: "(\<exists>err. body resp = Detail err) \<or>
            (\<exists>qs. body resp = Many (map (to_representation e (serializer_class (list_view v))) qs)
               \<and> pk_kwarg req \<notin> pk ` set qs)"
    if g: "verb req' = GET" and r: "dispatch e (list_view v) req' ?db' = Inr (resp, db'')"
    for req' resp db''
  proof -
    from assms(1) g have hl: "handler (list_view v) (verb req') = Some list" by auto
    from dispatch_cases [OF r] hl consider
        (exc) "\<exists>err. body resp = Detail err"
      | (ok) "list e (list_view v) req' ?db' = Inr (resp, db'')"
      by auto
    then show ?thesis
    proof cases
      case exc
      then show ?thesis by blast
    next
      case ok
      then obtain qs where qs: "get_queryset e (list_view v) req' ?db' = Inr qs"
        and b: "body resp = Many (map (to_representation e (serializer_class (list_view v))) qs)"
        by (auto simp: list_def split: sum.splits)
      from queryset_subset [OF qs] m gone have "pk_kwarg req \<notin> pk ` set qs" by auto
      with b show ?thesis by blast
    qed
  qed
  from d gone lst show ?thesis by blast
qed

text \<open>
  In the sample project user 1 deletes course 1; no course has primary key 1 afterwards.
\<close>

theorem delete_removes_from_list_witness:
  "verb (sample_request DELETE 1 1) = DELETE \<and>
   check_permissions sample_env CourseDetail (sample_request DELETE 1 1) \<and>
   get_object sample_env CourseDetail (sample_request DELETE 1 1) sample_db
     = Inr \<lparr>pk = 1, rels = [(''users'', [1])], cols = [(''name'', ''algebra'')]\<rparr> \<and>
   (\<exists>db'. dispatch sample_env CourseDetail (sample_request DELETE 1 1) sample_db
            = Inr (\<lparr>status = 204, body = NoBody, headers = []\<rparr>, db')
      \<and> 1 \<notin> pk ` set (tables db' Course))"
proof -
  have h: "CourseDetail \<in> {CourseDetail, LectureDetail, TaskDetail, TaskControlDetail, TaskCommentsDetail}"
    "verb (sample_request DELETE 1 1) = DELETE"
    "check_permissions sample_env CourseDetail (sample_request DELETE 1 1)"
    "get_object sample_env CourseDetail (sample_request DELETE 1 1) sample_db
     = Inr \<lparr>pk = 1, rels = [(''users'', [1])], cols = [(''name'', ''algebra'')]\<rparr>"
    by (simp_all add: sample_simps)
  from delete_removes_from_list [OF h] obtain db' where
    "dispatch sample_env CourseDetail (sample_request DELETE 1 1) sample_db
       = Inr (\<lparr>status = 204, body = NoBody, headers = []\<rparr>, db')"
    "pk_kwarg (sample_request DELETE 1 1) \<notin> pk ` set (tables db' (queryset_model CourseDetail))"
    by blast
  then have "\<exists>db'. dispatch sample_env CourseDetail (sample_request DELETE 1 1) sample_db
            = Inr (\<lparr>status = 204, body = NoBody, headers = []\<rparr>, db')
      \<and> 1 \<notin> pk ` set (tables db' Course)"
    by (auto simp: sample_request_def)
  with h show ?thesis by blast
qed

subsection \<open>The lookups of the TaskComments views\<close>

text \<open>
  C7. With the relations of the spec's data model declared, the queryset of the
  TaskComments list view is the comments whose task-control record reaches a course of the
  user (comment, task-control record, task, lecture, course, users). The lookup of the
  detail view starts at a relation \<open>task\<close> of the comment instead: where the comment
  model declares one that leads to tasks, its queryset is the comments whose own task
  reaches a course of the user, as if a comment belonged directly to a task. The endpoints
  over comments (a view and a verb it has a method for) whose filter starts at \<open>task\<close>
  are exactly two: PUT and DELETE on the detail view.
\<close>

theorem comments_filter_lookups:
  assumes "schema e Course ''users'' = Some User"
    and "schema e Lecture ''course'' = Some Course"
    and "schema e LectureTask ''lecture'' = Some Lecture"
    and "schema e TaskControl ''task'' = Some LectureTask"
  shows "(schema e TaskComments ''taskcontrol'' = Some TaskControl \<longrightarrow>
            (\<forall>qs. get_queryset e TaskCommentsList req db = Inr qs \<longrightarrow>
               qs = filter (\<lambda>rw. comment_visible db (user req) (pk rw)) (tables db TaskComments)))
       \<and> (schema e TaskComments ''task'' = Some LectureTask \<longrightarrow>
            (\<forall>qs. get_queryset e TaskCommentsDetail req db = Inr qs \<longrightarrow>
               qs = filter (\<lambda>rw. comment_task_visible db (user req) (pk rw)) (tables db TaskComments)))
       \<and> (\<forall>v m. (queryset_model v = TaskComments \<and> handler v m \<noteq> None \<and>
                   hd (lookup v) = ''task'')
                = (v = TaskCommentsDetail \<and> (m = PUT \<or> m = DELETE)))"
proof (intro conjI impI allI)
  fix qs
  assume t: "schema e TaskComments ''taskcontrol'' = Some TaskControl"
    and q: "get_queryset e TaskCommentsList req db = Inr qs"
  from get_queryset_chain [OF q] chain_comment [of "schema e", OF assms t]
  show "qs = filter (\<lambda>rw. comment_visible db (user req) (pk rw)) (tables db TaskComments)"
    by simp
next
  fix qs
  assume t: "schema e TaskComments ''task'' = Some LectureTask"
    and q: "get_queryset e TaskCommentsDetail req db = Inr qs"
  from get_queryset_chain [OF q] chain_comment_task [of "schema e", OF assms(1-3) t]
  show "qs = filter (\<lambda>rw. comment_task_visible db (user req) (pk rw)) (tables db TaskComments)"
    by simp
next
  fix v m
  show "(queryset_model v = TaskComments \<and> handler v m \<noteq> None \<and> hd (lookup v) = ''task'')
      = (v = TaskCommentsDetail \<and> (m = PUT \<or> m = DELETE))"
    by (cases v; cases m) simp_all
qed

text \<open>
  In the sample project user 1 lists comment 1 through its task-control record; in the
  sample project whose comments declare a relation \<open>task\<close>, the queryset of the detail
  view holds comment 1 through its task.
\<close>

theorem comments_filter_lookups_witness:
  "schema sample_env Course ''users'' = Some User \<and>
   schema sample_env Lecture ''course'' = Some Course \<and>
   schema sample_env LectureTask ''lecture'' = Some Lecture \<and>
   schema sample_env TaskControl ''task'' = Some LectureTask \<and>
   schema sample_env TaskComments ''taskcontrol'' = Some TaskControl \<and>
   schema sample_env_direct TaskComments ''task'' = Some LectureTask \<and>
   get_queryset sample_env TaskCommentsList (sample_request GET 1 0) sample_db
     = Inr [\<lparr>pk = 1, rels = [(''taskcontrol'', [1])], cols = [(''comment'', ''good'')]\<rparr>] \<and>
   [\<lparr>pk = 1, rels = [(''taskcontrol'', [1])], cols = [(''comment'', ''good'')]\<rparr>]
     = filter (\<lambda>rw. comment_visible sample_db (Authenticated 1) (pk rw))
         (tables sample_db TaskComments) \<and>
   get_queryset sample_env_direct TaskCommentsDetail (sample_request PUT 1 1) sample_db_direct
     = Inr [\<lparr>pk = 1, rels = [(''taskcontrol'', [1]), (''task'', [1])],
              cols = [(''comment'', ''good'')]\<rparr>] \<and>
   [\<lparr>pk = 1, rels = [(''taskcontrol'', [1]), (''task'', [1])], cols = [(''comment'', ''good'')]\<rparr>]
     = filter (\<lambda>rw. comment_task_visible sample_db_direct (Authenticated 1) (pk rw))
         (tables sample_db_direct TaskComments)"
proof -
  have s: "schema sample_env Course ''users'' = Some User"
    "schema sample_env Lecture ''course'' = Some Course"
    "schema sample_env LectureTask ''lecture'' = Some Lecture"
    "schema sample_env TaskControl ''task'' = Some LectureTask"
    by (simp_all add: sample_env_def)
  have t: "schema sample_env TaskComments ''taskcontrol'' = Some TaskControl"
    by (simp add: sample_env_def)
  have s': "schema sample_env_direct Course ''users'' = Some User"
    "schema sample_env_direct Lecture ''course'' = Some Course"
    "schema sample_env_direct LectureTask ''lecture'' = Some Lecture"
    "schema sample_env_direct TaskControl ''task'' = Some LectureTask"
    by (simp_all add: sample_env_direct_def direct_schema_def)
  have t': "schema sample_env_direct TaskComments ''task'' = Some LectureTask"
    by (simp add: sample_env_direct_def direct_schema_def)
  have q: "get_queryset sample_env TaskCommentsList (sample_request GET 1 0) sample_db
     = Inr [\<lparr>pk = 1, rels = [(''taskcontrol'', [1])], cols = [(''comment'', ''good'')]\<rparr>]"
    by (simp add: sample_simps)
  have q': "get_queryset sample_env_direct TaskCommentsDetail (sample_request PUT 1 1)
      sample_db_direct
     = Inr [\<lparr>pk = 1, rels = [(''taskcontrol'', [1]), (''task'', [1])],
              cols = [(''comment'', ''good'')]\<rparr>]"
    by (simp add: sample_simps)
  have 1: "[\<lparr>pk = 1, rels = [(''taskcontrol'', [1])], cols = [(''comment'', ''good'')]\<rparr>]
     = filter (\<lambda>rw. comment_visible sample_db (Authenticated 1) (pk rw))
         (tables sample_db TaskComments)"
    using comments_filter_lookups [OF s, of "sample_request GET 1 0" sample_db] t q
    by (simp add: sample_request_def)
  have 2: "[\<lparr>pk = 1, rels = [(''taskcontrol'', [1]), (''task'', [1])],
              cols = [(''comment'', ''good'')]\<rparr>]
     = filter (\<lambda>rw. comment_task_visible sample_db_direct (Authenticated 1) (pk rw))
         (tables sample_db_direct TaskComments)"
    using comments_filter_lookups [OF s', of "sample_request PUT 1 1" sample_db_direct] t' q'
    by (simp add: sample_request_def)
  from s t t' q q' 1 2 show ?thesis by blast
qed

subsection \<open>Database errors\<close>

text \<open>
  C9. No method of the views handles a database error. Whatever the view and the verb,
  when the backend is failing and the request gets as far as the database (it passed the
  permission check, the class has a method for the verb, a POST carries a payload the
  serializer accepts, and the lookup of any other request resolves for its user), the
  method raises
  \<open>DatabaseError\<close> and the error leaves the view: no response is made of it.
\<close>

theorem database_errors_propagate:
  assumes "db_down db"
    and "check_permissions e v req"
    and "handler v (verb req) = Some h"
    and "verb req = POST \<longrightarrow> run_validation e (serializer_class v) db None (data req) \<noteq> None"
    and "verb req \<noteq> POST \<longrightarrow>
         resolve (schema e) (queryset_model v) (lookup v) (user req) = None"
  shows "h e v req db = Inl DatabaseError \<and> dispatch e v req db = Inl DatabaseError"
proof -
  have q: "verb req \<noteq> POST \<Longrightarrow> get_queryset e v req db = Inl DatabaseError"
    using assms(1,5) by (simp add: get_queryset_def objects_filter_def)
  have "h e v req db = Inl DatabaseError"
  proof (cases "verb req = POST")
    case True
    with assms(3) have "h = CourseList_post \<or> h = create"
      by (cases v) auto
    with True assms(1,4) show ?thesis
      by (auto simp: CourseList_post_def create_def)
  next
    case False
    with assms(3) have "h = list \<or> h = retrieve \<or> h = update \<or> h = destroy"
      by (cases v; cases "verb req") auto
    with q [OF False] show ?thesis
      by (auto simp: list_def retrieve_def update_def destroy_def get_object_def)
  qed
  then show ?thesis using assms(2,3) by (simp add: dispatch_def)
qed


text \<open>
  With the backend of the sample project failing, a GET on the Course list ends in the
  database error.
\<close>

theorem database_errors_propagate_witness:
  "db_down sample_db_down \<and>
   check_permissions sample_env CourseList (sample_request GET 1 0) \<and>
   handler CourseList (verb (sample_request GET 1 0)) = Some list \<and>
   verb (sample_request GET 1 0) \<noteq> POST \<and>
   resolve (schema sample_env) (queryset_model CourseList) (lookup CourseList)
     (user (sample_request GET 1 0)) = None \<and>
   dispatch sample_env CourseList (sample_request GET 1 0) sample_db_down = Inl DatabaseError"
proof -
  have h: "db_down sample_db_down"
    "check_permissions sample_env CourseList (sample_request GET 1 0)"
    "handler CourseList (verb (sample_request GET 1 0)) = Some list"
    by (simp_all add: sample_simps)
  have n: "verb (sample_request GET 1 0) \<noteq> POST"
    by (simp add: sample_request_def)
  have r: "resolve (schema sample_env) (queryset_model CourseList) (lookup CourseList)
     (user (sample_request GET 1 0)) = None"
    by (simp add: sample_env_def sample_request_def)
  from database_errors_propagate [OF h] n r
  have "dispatch sample_env CourseList (sample_request GET 1 0) sample_db_down = Inl DatabaseError"
    by simp
  with h n r show ?thesis by blast
qed

subsection \<open>Views that use another entity's serializer\<close>

text \<open>
  C10. Of the ten views, exactly three have a serializer whose model is not the model of
  their queryset: the TaskControl detail view and the TaskComments detail view use the
  Task serializer, the TaskComments list view uses the TaskControl serializer. So a PUT
  on the TaskControl or TaskComments detail view, once its row is found, is validated by
  the Task serializer: rejected with 400 where that serializer rejects the payload;
  otherwise answered with 200 and the Task serializer's rendering of the object with the
  validated fields assigned, of which those that are fields of the row's own model are
  saved. A POST on the TaskComments list view with a payload the TaskControl serializer
  rejects is answered with 400.
\<close>

theorem mismatched_serializers:
  "((serializer_model (serializer_class v) \<noteq> queryset_model v)
      = (v \<in> {TaskControlDetail, TaskCommentsList, TaskCommentsDetail}))
   \<and> serializer_class TaskControlDetail = TaskSerializer
   \<and> serializer_class TaskCommentsDetail = TaskSerializer
   \<and> serializer_class TaskCommentsList = TaskControlSerializer
   \<and> (\<forall>obj. v \<in> {TaskControlDetail, TaskCommentsDetail} \<and> verb req = PUT \<and>
          get_object e v req db = Inr obj \<longrightarrow>
          dispatch e v req db =
            (case run_validation e TaskSerializer db (Some obj) (data req) of
               None \<Rightarrow> Inr (\<lparr>status = 400, body = Detail ValidationError, headers = []\<rparr>, db)
             | Some vd \<Rightarrow>
                 Inr (\<lparr>status = 200,
                       body = One (to_representation e TaskSerializer (set_fields obj vd)),
                       headers = []\<rparr>,
                      instance_save db (queryset_model v)
                        (set_fields obj (model_fields e (queryset_model v) vd)))))
   \<and> (v = TaskCommentsList \<and> verb req = POST \<and>
        run_validation e TaskControlSerializer db None (data req) = None \<longrightarrow>
        dispatch e v req db =
          Inr (\<lparr>status = 400, body = Detail ValidationError, headers = []\<rparr>, db))"
proof (intro conjI allI impI)
  show "(serializer_model (serializer_class v) \<noteq> queryset_model v)
      = (v \<in> {TaskControlDetail, TaskCommentsList, TaskCommentsDetail})"
    by (cases v) simp_all
next
  fix obj
  assume a: "v \<in> {TaskControlDetail, TaskCommentsDetail} \<and> verb req = PUT \<and>
          get_object e v req db = Inr obj"
  then have p: "check_permissions e v req" by (auto intro: allow_any_views)
  from a have h: "handler v (verb req) = Some update" by auto
  from a have s: "serializer_class v = TaskSerializer" by auto
  show "dispatch e v req db =
            (case run_validation e TaskSerializer db (Some obj) (data req) of
               None \<Rightarrow> Inr (\<lparr>status = 400, body = Detail ValidationError, headers = []\<rparr>, db)
             | Some vd \<Rightarrow>
                 Inr (\<lparr>status = 200,
                       body = One (to_representation e TaskSerializer (set_fields obj vd)),
                       headers = []\<rparr>,
                      instance_save db (queryset_model v)
                        (set_fields obj (model_fields e (queryset_model v) vd))))"
    using a s by (simp add: dispatch_handler [OF p h] update_def split: option.splits)
next
  assume a: "v = TaskCommentsList \<and> verb req = POST \<and>
        run_validation e TaskControlSerializer db None (data req) = None"
  then have p: "check_permissions e v req" by (auto intro: allow_any_views)
  from a have h: "handler v (verb req) = Some create" by auto
  show "dispatch e v req db =
          Inr (\<lparr>status = 400, body = Detail ValidationError, headers = []\<rparr>, db)"
    using a dispatch_handler [OF p h, of db] by (simp add: create_def)
qed simp_all

text \<open>
  In the sample project a PUT on task-control record 1 is decided by the Task serializer:
  the empty payload is rejected; the payload of a task's \<open>text\<close> is accepted and
  rendered, and as \<open>text\<close> is no field of a task-control record the stored record is
  the one it was.
\<close>

theorem mismatched_serializers_witness:
  "verb (sample_request PUT 1 1) = PUT \<and>
   get_object sample_env TaskControlDetail (sample_request PUT 1 1) sample_db
     = Inr \<lparr>pk = 1, rels = [(''task'', [1])], cols = [(''answer'', ''done'')]\<rparr> \<and>
   run_validation sample_env TaskSerializer sample_db
     (Some \<lparr>pk = 1, rels = [(''task'', [1])], cols = [(''answer'', ''done'')]\<rparr>)
     (data (sample_request PUT 1 1)) = None \<and>
   dispatch sample_env TaskControlDetail (sample_request PUT 1 1) sample_db
     = Inr (\<lparr>status = 400, body = Detail ValidationError, headers = []\<rparr>, sample_db) \<and>
   get_object sample_env TaskControlDetail (sample_payload PUT 1 1 [(''text'', ''new'')]) sample_db
     = Inr \<lparr>pk = 1, rels = [(''task'', [1])], cols = [(''answer'', ''done'')]\<rparr> \<and>
   (\<exists>db'. dispatch sample_env TaskControlDetail (sample_payload PUT 1 1 [(''text'', ''new'')])
             sample_db
        = Inr (\<lparr>status = 200, body = One [(''text'', ''new''), (''answer'', ''done'')],
                headers = []\<rparr>, db')
      \<and> tables db' TaskControl = tables sample_db TaskControl)"
proof -
  let ?obj = "\<lparr>pk = 1, rels = [(''task'', [1])], cols = [(''answer'', ''done'')]\<rparr>"
  let ?put = "sample_payload PUT 1 1 [(''text'', ''new'')]"
  have m: "verb (sample_request PUT 1 1) = PUT" "verb ?put = PUT"
    by (simp_all add: sample_request_def sample_payload_def)
  have o: "get_object sample_env TaskControlDetail (sample_request PUT 1 1) sample_db = Inr ?obj"
    "get_object sample_env TaskControlDetail ?put sample_db = Inr ?obj"
    by (simp_all add: sample_simps)
  have w: "run_validation sample_env TaskSerializer sample_db (Some ?obj)
     (data (sample_request PUT 1 1)) = None"
    by (simp add: sample_env_def sample_request_def)
  have w': "run_validation sample_env TaskSerializer sample_db (Some ?obj) (data ?put)
     = Some ([], [(''text'', ''new'')])"
    by (simp add: sample_env_def sample_payload_def)
  from mismatched_serializers [of TaskControlDetail "sample_request PUT 1 1" sample_env sample_db]
    m(1) o(1) w
  have 1: "dispatch sample_env TaskControlDetail (sample_request PUT 1 1) sample_db
     = Inr (\<lparr>status = 400, body = Detail ValidationError, headers = []\<rparr>, sample_db)"
    by simp
  from mismatched_serializers [of TaskControlDetail ?put sample_env sample_db] m(2) o(2) w'
  have "dispatch sample_env TaskControlDetail ?put sample_db
     = Inr (\<lparr>status = 200,
             body = One (to_representation sample_env TaskSerializer
                           (set_fields ?obj ([], [(''text'', ''new'')]))),
             headers = []\<rparr>,
            instance_save sample_db (queryset_model TaskControlDetail)
              (set_fields ?obj
                 (model_fields sample_env (queryset_model TaskControlDetail)
                    ([], [(''text'', ''new'')]))))"
    by simp
  then have 2: "\<exists>db'. dispatch sample_env TaskControlDetail ?put sample_db
        = Inr (\<lparr>status = 200, body = One [(''text'', ''new''), (''answer'', ''done'')],
                headers = []\<rparr>, db')
      \<and> tables db' TaskControl = tables sample_db TaskControl"
    by (simp add: sample_env_def sample_db_def sample_tables_def sample_columns_def
        set_fields_def overwrite_def model_fields_def instance_save_def)
  from m o w 1 2 show ?thesis by blast
qed

end
